theory Spec2Isabelle
  imports Main "HOL-Library.Word" "HOL-Library.AList"
begin

section \<open>Go library functions used by the middleware\<close>

text \<open>
  Go strings are byte sequences; they are modelled as \<open>string\<close> (a list of 8-bit
  characters), so \<open>length\<close> is Go's \<open>len\<close>.
\<close>

definition strings_HasPrefix :: "string \<Rightarrow> string \<Rightarrow> bool" where
  "strings_HasPrefix s pfx = (take (length pfx) s = pfx)"

fun strings_Contains :: "string \<Rightarrow> string \<Rightarrow> bool" where
  "strings_Contains [] sub = (sub = [])"
| "strings_Contains (c # cs) sub =
     (strings_HasPrefix (c # cs) sub \<or> strings_Contains cs sub)"

text \<open>
  \<open>strings.ToLower\<close> on the ASCII range: the bytes \<open>A\<close> to \<open>Z\<close> (65 to 90) are
  moved by 32, every other byte is kept.
\<close>

definition lowerByte :: "char \<Rightarrow> char" where
  "lowerByte c =
     (if 65 \<le> (of_char c :: nat) \<and> (of_char c :: nat) \<le> 90
      then char_of ((of_char c :: nat) + 32) else c)"

definition strings_ToLower :: "string \<Rightarrow> string" where
  "strings_ToLower s = map lowerByte s"

text \<open>
  \<open>strings.ReplaceAll s old new\<close>: the non-overlapping occurrences of \<open>old\<close> are
  replaced from left to right; an empty \<open>old\<close> matches before every byte and at the end.
\<close>

function strings_ReplaceAll :: "string \<Rightarrow> string \<Rightarrow> string \<Rightarrow> string" where
  "strings_ReplaceAll [] old new = (if old = [] then new else [])"
| "strings_ReplaceAll (c # cs) old new =
     (if old = [] then new @ c # strings_ReplaceAll cs old new
      else if strings_HasPrefix (c # cs) old
        then new @ strings_ReplaceAll (drop (length old) (c # cs)) old new
      else c # strings_ReplaceAll cs old new)"
  by pat_completeness auto
termination
  by (relation "measure (\<lambda>(s, old, new). length s)") (auto simp: neq_Nil_conv)

text \<open>
  \<open>http.Header.Get\<close>: the value stored under a header name, the empty string when
  the header is absent.
\<close>

definition Header_Get :: "(string \<rightharpoonup> string) \<Rightarrow> string \<Rightarrow> string" where
  "Header_Get h k = (case h k of None \<Rightarrow> [] | Some v \<Rightarrow> v)"

text \<open>The \<open>%d\<close> verb of \<open>fmt\<close>: an integer in decimal.\<close>

function fmt_nat :: "nat \<Rightarrow> string" where
  "fmt_nat n =
     (if n < 10 then [char_of (48 + n)]
      else fmt_nat (n div 10) @ [char_of (48 + n mod 10)])"
  by pat_completeness auto
termination
  by (relation "measure id") auto

declare fmt_nat.simps [simp del]

definition fmt_d :: "int \<Rightarrow> string" where
  "fmt_d i = (if i < 0 then CHR ''-'' # fmt_nat (nat (- i)) else fmt_nat (nat i))"

text \<open>
  The value \<open>json.Unmarshal\<close> stores into an \<open>interface{}\<close>: \<open>nil\<close>, \<open>bool\<close>,
  a number (\<open>float64\<close>, kept abstract as \<open>'n\<close>), \<open>string\<close>, \<open>[]interface{}\<close> or
  \<open>map[string]interface{}\<close> (its entries as a list of pairs).
\<close>

datatype 'n json =
    JNull
  | JBool bool
  | JNum 'n
  | JStr string
  | JArr "'n json list"
  | JObj "(string \<times> 'n json) list"

section \<open>Configuration records (package middleware)\<close>

record AuthConfig =
  auth_Enabled :: bool
  auth_Type :: string
  auth_Secret :: string
  auth_Expiration :: int
  auth_Issuer :: string

record ValidationConfig =
  val_Enabled :: bool
  val_StrictMode :: bool
  val_MaxRequestSize :: "64 word"
  val_ValidateHeaders :: bool

record ResponseConfig =
  resp_Enabled :: bool
  resp_StandardFormat :: bool
  resp_IncludeTimestamp :: bool
  resp_IncludeRequestID :: bool
  resp_CompressionLevel :: int
  resp_CacheControl :: string

record SyncConfig =
  sync_Enabled :: bool
  sync_WebSocketEnabled :: bool
  sync_SSEEnabled :: bool
  sync_HeartbeatInterval :: int
  sync_BufferSize :: int

record ClaudeConfig =
  claude_Enabled :: bool
  claude_APIEndpoint :: string
  claude_Version :: string
  claude_MaxRetries :: int
  claude_TimeoutSeconds :: int
  claude_RateLimitRPS :: int
  claude_EnableStreaming :: bool

record ErrorConfig =
  err_Enabled :: bool
  err_DetailedErrors :: bool
  err_LogErrors :: bool
  err_IncludeStack :: bool
  err_SanitizeSecrets :: bool

record MiddlewareConfig =
  cfg_Auth :: AuthConfig
  cfg_Validation :: ValidationConfig
  cfg_Response :: ResponseConfig
  cfg_Sync :: SyncConfig
  cfg_Claude :: ClaudeConfig
  cfg_Errors :: ErrorConfig

section \<open>Request validation (package validation)\<close>

text \<open>
  The part of \<open>http.Request\<close> the validator reads. \<open>ContentLength\<close> is Go's \<open>int64\<close>
  field: the declared length, \<open>-1\<close> when it is unknown (chunked transfer encoding).
  \<open>Body\<close> is what \<open>io.ReadAll\<close> gives on the body stream: the bytes, or a read error.
  \<open>Query\<close> holds the parameters of the URL's query string and \<open>ctx_UserID\<close> the
  \<open>UserID\<close> of the request context.
\<close>

record Request =
  Method :: string
  Path :: string
  Header :: "string \<rightharpoonup> string"
  Query :: "string \<rightharpoonup> string"
  ContentLength :: "64 word"
  Body :: "string + string"
  ctx_UserID :: string

text \<open>
  What the handler does with a request: it answers itself through \<open>writeBadRequest\<close>
  (status, error code, message), or it calls the next handler with a request.
\<close>

datatype outcome =
    Rejected int string string
  | Forwarded Request

definition writeBadRequest :: "string \<Rightarrow> outcome" where
  "writeBadRequest message = Rejected 400 ''VALIDATION_ERROR'' message"

definition validateRequestSize :: "ValidationConfig \<Rightarrow> Request \<Rightarrow> string option" where
  "validateRequestSize cfg r =
     (if 0 < sint (val_MaxRequestSize cfg)
         \<and> sint (val_MaxRequestSize cfg) < sint (ContentLength r)
      then Some (''request size '' @ fmt_d (sint (ContentLength r))
                 @ '' exceeds maximum allowed size '' @ fmt_d (sint (val_MaxRequestSize cfg)))
      else None)"

definition validateHeaders :: "ValidationConfig \<Rightarrow> Request \<Rightarrow> string option" where
  "validateHeaders cfg r =
     (if Header_Get (Header r) ''User-Agent'' = [] \<and> val_StrictMode cfg
      then Some ''missing User-Agent header''
      else if (strings_HasPrefix (Path r) ''/api/'' \<or> strings_HasPrefix (Path r) ''/v1/'')
            \<and> Header_Get (Header r) ''Accept'' \<noteq> []
            \<and> \<not> strings_Contains (Header_Get (Header r) ''Accept'') ''application/json''
            \<and> \<not> strings_Contains (Header_Get (Header r) ''Accept'') ''*/*''
      then Some (''unsupported Accept header: '' @ Header_Get (Header r) ''Accept'')
      else None)"

definition supportedTypes :: "string list" where
  "supportedTypes =
     [''application/json'', ''application/x-www-form-urlencoded'',
      ''multipart/form-data'', ''text/plain'']"

definition validateContentType :: "Request \<Rightarrow> string option" where
  "validateContentType r =
     (if ContentLength r = 0 then None
      else if Header_Get (Header r) ''Content-Type'' = []
        then Some ''missing Content-Type header''
      else if list_ex (strings_HasPrefix (Header_Get (Header r) ''Content-Type'')) supportedTypes
        then None
      else Some (''unsupported Content-Type: '' @ Header_Get (Header r) ''Content-Type''))"

definition hasJSONBody :: "Request \<Rightarrow> bool" where
  "hasJSONBody r =
     (strings_HasPrefix (Header_Get (Header r) ''Content-Type'') ''application/json''
      \<and> 0 < sint (ContentLength r))"

text \<open>
  \<open>validateJSONStructure\<close> walks the parsed value and returns the first error it finds.
  Go ranges over a map in no fixed order; the entries are walked here in list order,
  which decides only which of several errors is reported.
\<close>

fun validateJSONStructure :: "'n json \<Rightarrow> string option"
  and validateItems :: "'n json list \<Rightarrow> string option"
  and validateEntries :: "(string \<times> 'n json) list \<Rightarrow> string option" where
  "validateJSONStructure (JObj kvs) = validateEntries kvs"
| "validateJSONStructure (JArr xs) = validateItems xs"
| "validateJSONStructure (JStr d) =
     (if 10000 < length d
      then Some (''string value too long: '' @ fmt_d (int (length d)) @ '' characters'')
      else None)"
| "validateJSONStructure JNull = None"
| "validateJSONStructure (JBool b) = None"
| "validateJSONStructure (JNum n) = None"
| "validateItems [] = None"
| "validateItems (x # xs) =
     (case validateJSONStructure x of Some e \<Rightarrow> Some e | None \<Rightarrow> validateItems xs)"
| "validateEntries [] = None"
| "validateEntries (kv # kvs) =
     (if fst kv = [] then Some ''empty object key not allowed''
      else case validateJSONStructure (snd kv) of
             Some e \<Rightarrow> Some e
           | None \<Rightarrow> validateEntries kvs)"

text \<open>
  \<open>validateAndBufferJSON\<close> returns the buffered bytes or an error. The JSON parser
  (\<open>json.Unmarshal\<close>, from Go's standard library) is the parameter \<open>unmarshal\<close>:
  \<open>None\<close> is a syntax error.
\<close>

definition validateAndBufferJSON ::
    "(string \<Rightarrow> 'n json option) \<Rightarrow> ValidationConfig \<Rightarrow> Request \<Rightarrow> string + string" where
  "validateAndBufferJSON unmarshal cfg r =
     (case Body r of
        Inl e \<Rightarrow> Inl (''failed to read request body: '' @ e)
      | Inr body \<Rightarrow>
          if length body = 0 then Inr body
          else case unmarshal body of
                 None \<Rightarrow> Inl ''invalid JSON''
               | Some jsonData \<Rightarrow>
                   if val_StrictMode cfg
                   then (case validateJSONStructure jsonData of
                           Some e \<Rightarrow> Inl e
                         | None \<Rightarrow> Inr body)
                   else Inr body)"

text \<open>The handler of the validation middleware, check by check in the source's order.\<close>

definition validation_Handler ::
    "(string \<Rightarrow> 'n json option) \<Rightarrow> ValidationConfig \<Rightarrow> Request \<Rightarrow> outcome" where
  "validation_Handler unmarshal cfg r =
     (if \<not> val_Enabled cfg then Forwarded r
      else case validateRequestSize cfg r of
        Some e \<Rightarrow> writeBadRequest e
      | None \<Rightarrow>
         (case (if val_ValidateHeaders cfg then validateHeaders cfg r else None) of
            Some e \<Rightarrow> writeBadRequest e
          | None \<Rightarrow>
             (case (if Method r = ''POST'' \<or> Method r = ''PUT''
                    then validateContentType r else None) of
                Some e \<Rightarrow> writeBadRequest e
              | None \<Rightarrow>
                 if hasJSONBody r
                 then (case validateAndBufferJSON unmarshal cfg r of
                         Inl e \<Rightarrow> writeBadRequest e
                       | Inr body \<Rightarrow> Forwarded (r\<lparr>Body := Inr body\<rparr>))
                 else Forwarded r)))"



text \<open>
  A parser that knows one document, the object with the single entry of key \<open>""\<close>
  and value \<open>1\<close>, used to run the handler on a concrete request.
\<close>

definition emptyKeyDocument :: string where
  "emptyKeyDocument = [CHR ''{'', CHR 0x22, CHR 0x22, CHR '':'', CHR ''1'', CHR ''}'']"

definition unmarshalEmptyKey :: "string \<Rightarrow> int json option" where
  "unmarshalEmptyKey body =
     (if body = emptyKeyDocument then Some (JObj [([], JNum 1)]) else None)"

text \<open>
  A validator in strict mode, and a \<open>POST\<close> of that document as
  \<open>application/json\<close> with a given declared length.
\<close>

definition strictValidation :: ValidationConfig where
  "strictValidation =
     \<lparr>val_Enabled = True, val_StrictMode = True, val_MaxRequestSize = 1024,
      val_ValidateHeaders = False\<rparr>"

definition emptyKeyRequest :: "64 word \<Rightarrow> Request" where
  "emptyKeyRequest declared =
     \<lparr>Method = ''POST'', Path = ''/claude/message'',
      Header = [''Content-Type'' \<mapsto> ''application/json''], Query = Map.empty,
      ContentLength = declared, Body = Inr emptyKeyDocument, ctx_UserID = []\<rparr>"

section \<open>Error handling (package errors)\<close>

text \<open>
  \<open>sanitizeMessage\<close> goes through the sensitive patterns in order. For each one it
  tests the lower-cased message for the pattern and, when found, calls
  \<open>strings.ReplaceAll\<close> on the message itself with the lower-case pattern.
\<close>

definition sensitivePatterns :: "string list" where
  "sensitivePatterns =
     [''password'', ''token'', ''key'', ''secret'', ''auth'', ''credential'']"

fun sanitizeLoop :: "string list \<Rightarrow> string \<Rightarrow> string" where
  "sanitizeLoop [] sanitized = sanitized"
| "sanitizeLoop (pattern # rest) sanitized =
     sanitizeLoop rest
       (if strings_Contains (strings_ToLower sanitized) pattern
        then strings_ReplaceAll sanitized pattern ''[REDACTED]''
        else sanitized)"

definition sanitizeMessage :: "string \<Rightarrow> string" where
  "sanitizeMessage message = sanitizeLoop sensitivePatterns message"

record ErrorInfo =
  ei_Code :: string
  ei_Message :: string
  ei_Stack :: string

text \<open>
  The response \<open>writeErrorResponse\<close> writes: the HTTP status and the error object of
  the envelope (\<open>success\<close> is false). The frames of \<open>captureStack\<close> come from the Go
  runtime and are the parameter \<open>stack\<close>.
\<close>

record ErrorResponse =
  er_Status :: int
  er_Error :: ErrorInfo

fun strings_Join :: "string list \<Rightarrow> string \<Rightarrow> string" where
  "strings_Join [] sep = []"
| "strings_Join [x] sep = x"
| "strings_Join (x # y # ys) sep = x @ sep @ strings_Join (y # ys) sep"

definition writeErrorResponse ::
    "ErrorConfig \<Rightarrow> string list \<Rightarrow> int \<Rightarrow> string \<Rightarrow> string \<Rightarrow> ErrorResponse" where
  "writeErrorResponse cfg stack statusCode code message =
     \<lparr>er_Status = statusCode,
      er_Error =
        \<lparr>ei_Code = code,
         ei_Message = (if err_SanitizeSecrets cfg then sanitizeMessage message else message),
         ei_Stack = (if err_DetailedErrors cfg \<and> err_IncludeStack cfg
                     then strings_Join stack [CHR 0x0A] else [])\<rparr>\<rparr>"

text \<open>\<open>logError\<close>: the line handed to the logger, if any.\<close>

definition logError :: "ErrorConfig \<Rightarrow> string \<Rightarrow> string option" where
  "logError cfg message =
     (if \<not> err_LogErrors cfg then None
      else Some (if err_SanitizeSecrets cfg then sanitizeMessage message else message))"

text \<open>
  \<open>HandleError\<close> with the error's text (\<open>None\<close> is a \<open>nil\<close> error, for which nothing
  is logged or written): the logged line and the response.
\<close>

definition HandleError ::
    "ErrorConfig \<Rightarrow> string list \<Rightarrow> string option \<Rightarrow> int
       \<Rightarrow> (string option \<times> ErrorResponse) option" where
  "HandleError cfg stack err statusCode =
     (case err of
        None \<Rightarrow> None
      | Some msg \<Rightarrow>
          Some (logError cfg msg,
                writeErrorResponse cfg stack statusCode
                  (if statusCode = 400 then ''BAD_REQUEST''
                   else if statusCode = 401 then ''UNAUTHORIZED''
                   else if statusCode = 403 then ''FORBIDDEN''
                   else if statusCode = 404 then ''NOT_FOUND''
                   else if statusCode = 405 then ''METHOD_NOT_ALLOWED''
                   else if statusCode = 409 then ''CONFLICT''
                   else if statusCode = 429 then ''RATE_LIMITED''
                   else if statusCode = 500 then ''INTERNAL_SERVER_ERROR''
                   else if statusCode = 502 then ''BAD_GATEWAY''
                   else if statusCode = 503 then ''SERVICE_UNAVAILABLE''
                   else if statusCode = 504 then ''GATEWAY_TIMEOUT''
                   else ''UNKNOWN_ERROR'')
                  msg))"

text \<open>
  \<open>recoverPanic\<close> for a recovered panic value (its text): the logged line and the
  response with the fixed message.
\<close>

definition recoverPanic ::
    "ErrorConfig \<Rightarrow> string list \<Rightarrow> string \<Rightarrow> string option \<times> ErrorResponse" where
  "recoverPanic cfg stack recovered =
     (logError cfg (''Panic recovered: '' @ recovered),
      writeErrorResponse cfg stack 500 ''INTERNAL_SERVER_ERROR'' ''Internal server error'')"

text \<open>
  The status to code table of the specification (section 4.2), row by row, for
  comparison with the switch of \<open>HandleError\<close>.
\<close>

definition spec_status_code :: "(int \<times> string) list" where
  "spec_status_code =
     [(400, ''BAD_REQUEST''), (401, ''UNAUTHORIZED''), (403, ''FORBIDDEN''),
      (404, ''NOT_FOUND''), (405, ''METHOD_NOT_ALLOWED''), (408, ''REQUEST_TIMEOUT''),
      (409, ''CONFLICT''), (422, ''UNPROCESSABLE_ENTITY''), (429, ''RATE_LIMITED''),
      (500, ''INTERNAL_SERVER_ERROR''), (502, ''BAD_GATEWAY''),
      (503, ''SERVICE_UNAVAILABLE''), (504, ''GATEWAY_TIMEOUT'')]"

section \<open>Session layer (package claude)\<close>

text \<open>
  \<open>time.Time\<close> and \<open>time.Duration\<close> are counted in nanoseconds, as integers.
\<close>

definition Second :: int where
  "Second = 1000000000"

definition Minute :: int where
  "Minute = 60 * Second"

record ClaudeSession =
  cs_ID :: string
  cs_ConversationID :: string
  cs_Model :: string
  cs_Tools :: "string list"
  cs_Context :: "string \<rightharpoonup> string"
  cs_CreatedAt :: int
  cs_LastActivity :: int
  cs_Status :: string





record ClaudeMiddleware =
  cm_config :: ClaudeConfig
  cm_enabled :: bool
  cm_clientTimeout :: int
  cm_sessions :: "string \<rightharpoonup> ClaudeSession"













text \<open>
  \<open>getOrCreateSession\<close> at time \<open>now\<close>: the session found under a non-empty id,
  or a new one, with generated ids where the caller gave none, stored under its id.
\<close>

definition getOrCreateSession ::
    "int \<Rightarrow> string \<Rightarrow> string \<Rightarrow> string \<Rightarrow> ClaudeMiddleware
       \<Rightarrow> ClaudeSession \<times> ClaudeMiddleware" where
  "getOrCreateSession now sessionID conversationID model c =
     (case (if sessionID \<noteq> [] then cm_sessions c sessionID else None) of
        Some session \<Rightarrow> (session, c)
      | None \<Rightarrow>
          (let sid = (if sessionID = [] then ''claude_session_'' @ fmt_d now else sessionID);
               session =
                 \<lparr>cs_ID = sid,
                  cs_ConversationID =
                    (if conversationID = [] then ''claude_conv_'' @ fmt_d now
                     else conversationID),
                  cs_Model = (if model = [] then ''claude-3-sonnet'' else model),
                  cs_Tools = [], cs_Context = Map.empty,
                  cs_CreatedAt = now, cs_LastActivity = now, cs_Status = ''active''\<rparr>
           in (session, c\<lparr>cm_sessions := (cm_sessions c)(sid \<mapsto> session)\<rparr>)))"

text \<open>
  \<open>CleanupSessions\<close> at time \<open>now\<close>: the cutoff is computed once, and every session
  whose \<open>LastActivity\<close> is strictly before it is deleted from the map.
\<close>

definition CleanupSessions :: "int \<Rightarrow> int \<Rightarrow> ClaudeMiddleware \<Rightarrow> ClaudeMiddleware" where
  "CleanupSessions now maxAge c =
     c\<lparr>cm_sessions :=
         (\<lambda>sessionID.
            case cm_sessions c sessionID of
              None \<Rightarrow> None
            | Some session \<Rightarrow>
                if cs_LastActivity session < now - maxAge then None else Some session)\<rparr>"

definition claude_Configure :: "ClaudeConfig \<Rightarrow> ClaudeMiddleware \<Rightarrow> string + ClaudeMiddleware" where
  "claude_Configure claudeConfig c =
     Inr (c\<lparr>cm_config := claudeConfig,
            cm_enabled := claude_Enabled claudeConfig,
            cm_clientTimeout := claude_TimeoutSeconds claudeConfig * Second\<rparr>)"

section \<open>Authentication (package auth)\<close>

record AuthMiddleware =
  am_config :: AuthConfig
  am_enabled :: bool
  am_jwtKey :: string
  am_apiKeys :: "string \<rightharpoonup> string"

text \<open>
  A parsed token as the JWT library (\<open>github.com/golang-jwt/jwt/v5\<close>, not part of this
  repository) hands it over: the signing method, the claims (\<open>jwt.MapClaims\<close>, numbers
  as integers) and the \<open>Valid\<close> flag.
\<close>

datatype signing_method = SigningMethodHMAC | SigningMethodOther


definition auth_Configure :: "AuthConfig \<Rightarrow> AuthMiddleware \<Rightarrow> string + AuthMiddleware" where
  "auth_Configure authConfig a =
     Inr (a\<lparr>am_config := authConfig,
            am_enabled := auth_Enabled authConfig,
            am_jwtKey := auth_Secret authConfig\<rparr>)"















section \<open>Synchronization hub (package sync)\<close>

record SyncMessage =
  msg_Type :: string
  msg_Data :: "int json"
  msg_Timestamp :: int
  msg_ClientID :: string
  msg_UserID :: string
  msg_AgentID :: string

text \<open>
  A buffered Go channel of messages: the pending messages, the capacity and whether
  the channel has been closed. Sending on a closed channel and closing a closed
  channel panic.
\<close>

record chan =
  ch_buf :: "SyncMessage list"
  ch_cap :: nat
  ch_closed :: bool

datatype panic = SendOnClosedChannel | CloseOfClosedChannel | NilClient

text \<open>
  \<open>select { case ch <- m: default: }\<close>: the send goes through when the buffer has
  room (\<open>Some\<close> of the new channel), the default branch is taken when it is full
  (\<open>None\<close>), and the send panics when the channel is closed.
\<close>

definition trySend :: "chan \<Rightarrow> SyncMessage \<Rightarrow> panic + chan option" where
  "trySend ch m =
     (if ch_closed ch then Inl SendOnClosedChannel
      else if length (ch_buf ch) < ch_cap ch then Inr (Some (ch\<lparr>ch_buf := ch_buf ch @ [m]\<rparr>))
      else Inr None)"

definition chan_close :: "chan \<Rightarrow> panic + chan" where
  "chan_close ch =
     (if ch_closed ch then Inl CloseOfClosedChannel else Inr (ch\<lparr>ch_closed := True\<rparr>))"

record Client =
  cl_ID :: string
  cl_UserID :: string
  cl_AgentID :: string
  cl_Send :: chan
  cl_LastPing :: int
  cl_Metadata :: "string \<rightharpoonup> string"

text \<open>
  The hub. \<open>sm_clients\<close> is the registry \<open>map[string]*Client\<close>, from client id to
  the address of the client; \<open>sm_heap\<close> holds the client objects, which the registry
  and the per-connection goroutines share; \<open>sm_broadcast\<close> holds the messages waiting
  in the broadcast channel.
\<close>

record SyncMiddleware =
  sm_config :: SyncConfig
  sm_enabled :: bool
  sm_clients :: "(string \<times> nat) list"
  sm_heap :: "nat \<rightharpoonup> Client"
  sm_broadcast :: "SyncMessage list"

definition sync_Configure :: "SyncConfig \<Rightarrow> SyncMiddleware \<Rightarrow> string + SyncMiddleware" where
  "sync_Configure syncConfig s =
     Inr (s\<lparr>sm_config := syncConfig, sm_enabled := sync_Enabled syncConfig\<rparr>)"

definition shouldReceiveMessage :: "Client \<Rightarrow> SyncMessage \<Rightarrow> bool" where
  "shouldReceiveMessage client message =
     (if msg_UserID message = [] \<and> msg_AgentID message = [] then True
      else if msg_UserID message \<noteq> [] \<and> cl_UserID client = msg_UserID message then True
      else if msg_AgentID message \<noteq> [] \<and> cl_AgentID client = msg_AgentID message then True
      else False)"

text \<open>
  The non-blocking send that \<open>registerClient\<close> and \<open>broadcastMessage\<close> share: on a
  full queue the channel is closed and the client's id is deleted from the registry.
\<close>

definition sendOrDrop :: "nat \<Rightarrow> Client \<Rightarrow> SyncMessage \<Rightarrow> SyncMiddleware \<Rightarrow> panic + SyncMiddleware" where
  "sendOrDrop p client message s =
     (case trySend (cl_Send client) message of
        Inl e \<Rightarrow> Inl e
      | Inr (Some ch) \<Rightarrow> Inr (s\<lparr>sm_heap := (sm_heap s)(p \<mapsto> client\<lparr>cl_Send := ch\<rparr>)\<rparr>)
      | Inr None \<Rightarrow>
          (case chan_close (cl_Send client) of
             Inl e \<Rightarrow> Inl e
           | Inr ch \<Rightarrow>
               Inr (s\<lparr>sm_heap := (sm_heap s)(p \<mapsto> client\<lparr>cl_Send := ch\<rparr>),
                      sm_clients := AList.delete (cl_ID client) (sm_clients s)\<rparr>)))"

definition registerClient :: "int \<Rightarrow> nat \<Rightarrow> SyncMiddleware \<Rightarrow> panic + SyncMiddleware" where
  "registerClient now p s =
     (case sm_heap s p of
        None \<Rightarrow> Inl NilClient
      | Some client \<Rightarrow>
          sendOrDrop p client
            \<lparr>msg_Type = ''welcome'',
             msg_Data = JObj [(''client_id'', JStr (cl_ID client))],
             msg_Timestamp = now, msg_ClientID = [], msg_UserID = [], msg_AgentID = []\<rparr>
            (s\<lparr>sm_clients := AList.update (cl_ID client) p (sm_clients s)\<rparr>))"

definition unregisterClient :: "nat \<Rightarrow> SyncMiddleware \<Rightarrow> panic + SyncMiddleware" where
  "unregisterClient p s =
     (case sm_heap s p of
        None \<Rightarrow> Inl NilClient
      | Some client \<Rightarrow>
          if map_of (sm_clients s) (cl_ID client) \<noteq> None then
            (case chan_close (cl_Send client) of
               Inl e \<Rightarrow> Inl e
             | Inr ch \<Rightarrow>
                 Inr (s\<lparr>sm_clients := AList.delete (cl_ID client) (sm_clients s),
                        sm_heap := (sm_heap s)(p \<mapsto> client\<lparr>cl_Send := ch\<rparr>)\<rparr>))
          else Inr s)"

text \<open>
  \<open>broadcastMessage\<close> ranges over the registry. Go fixes no order for a map; the
  entries are visited here in the order of the list.
\<close>

fun broadcastLoop ::
    "SyncMessage \<Rightarrow> (string \<times> nat) list \<Rightarrow> SyncMiddleware \<Rightarrow> panic + SyncMiddleware" where
  "broadcastLoop message [] s = Inr s"
| "broadcastLoop message (entry # entries) s =
     (case sm_heap s (snd entry) of
        None \<Rightarrow> Inl NilClient
      | Some client \<Rightarrow>
          if shouldReceiveMessage client message then
            (case sendOrDrop (snd entry) client message s of
               Inl e \<Rightarrow> Inl e
             | Inr s' \<Rightarrow> broadcastLoop message entries s')
          else broadcastLoop message entries s)"

definition broadcastMessage :: "SyncMessage \<Rightarrow> SyncMiddleware \<Rightarrow> panic + SyncMiddleware" where
  "broadcastMessage message s = broadcastLoop message (sm_clients s) s"

definition handleSubscription :: "nat \<Rightarrow> Client \<Rightarrow> SyncMessage \<Rightarrow> SyncMiddleware \<Rightarrow> SyncMiddleware" where
  "handleSubscription p client message s =
     (case msg_Data message of
        JObj data \<Rightarrow>
          (case map_of data ''agent_id'' of
             Some (JStr agentIDStr) \<Rightarrow>
               s\<lparr>sm_heap := (sm_heap s)(p \<mapsto>
                    client\<lparr>cl_AgentID := agentIDStr,
                           cl_Metadata := (cl_Metadata client)(''subscribed_agent'' \<mapsto> agentIDStr)\<rparr>)\<rparr>
           | _ \<Rightarrow> s)
      | _ \<Rightarrow> s)"

text \<open>
  \<open>handleClientMessage\<close>, called by the reader goroutine of the client at address
  \<open>p\<close>. On a ping whose pong does not fit, the channel is closed; the registry is
  left as it is.
\<close>

definition handleClientMessage ::
    "int \<Rightarrow> nat \<Rightarrow> SyncMessage \<Rightarrow> SyncMiddleware \<Rightarrow> panic + SyncMiddleware" where
  "handleClientMessage now p message s =
     (case sm_heap s p of
        None \<Rightarrow> Inl NilClient
      | Some client \<Rightarrow>
          if msg_Type message = ''ping'' then
            (case trySend (cl_Send client)
                    \<lparr>msg_Type = ''pong'', msg_Data = JNull, msg_Timestamp = now,
                     msg_ClientID = cl_ID client, msg_UserID = [], msg_AgentID = []\<rparr> of
               Inl e \<Rightarrow> Inl e
             | Inr (Some ch) \<Rightarrow> Inr (s\<lparr>sm_heap := (sm_heap s)(p \<mapsto> client\<lparr>cl_Send := ch\<rparr>)\<rparr>)
             | Inr None \<Rightarrow>
                 (case chan_close (cl_Send client) of
                    Inl e \<Rightarrow> Inl e
                  | Inr ch \<Rightarrow> Inr (s\<lparr>sm_heap := (sm_heap s)(p \<mapsto> client\<lparr>cl_Send := ch\<rparr>)\<rparr>)))
          else if msg_Type message = ''subscribe'' then
            Inr (handleSubscription p client
                   (message\<lparr>msg_ClientID := cl_ID client, msg_UserID := cl_UserID client,
                            msg_Timestamp := now\<rparr>) s)
          else
            Inr (s\<lparr>sm_broadcast := sm_broadcast s
                     @ [message\<lparr>msg_ClientID := cl_ID client, msg_UserID := cl_UserID client,
                                 msg_Timestamp := now\<rparr>]\<rparr>))"

definition sendHeartbeat :: "int \<Rightarrow> SyncMiddleware \<Rightarrow> SyncMiddleware" where
  "sendHeartbeat now s =
     s\<lparr>sm_broadcast := sm_broadcast s
         @ [\<lparr>msg_Type = ''heartbeat'', msg_Data = JObj [(''timestamp'', JNum now)],
             msg_Timestamp = now, msg_ClientID = [], msg_UserID = [], msg_AgentID = []\<rparr>]\<rparr>"

definition BroadcastAgentStatus ::
    "int \<Rightarrow> string \<Rightarrow> string \<Rightarrow> string \<Rightarrow> SyncMiddleware \<Rightarrow> SyncMiddleware" where
  "BroadcastAgentStatus now agentID status message s =
     s\<lparr>sm_broadcast := sm_broadcast s
         @ [\<lparr>msg_Type = ''agent_status'',
             msg_Data = JObj [(''agent_id'', JStr agentID), (''status'', JStr status),
                              (''message'', JStr message), (''timestamp'', JNum now)],
             msg_Timestamp = now, msg_ClientID = [], msg_UserID = [],
             msg_AgentID = agentID\<rparr>]\<rparr>"

text \<open>
  \<open>handleWebSocket\<close> after a successful upgrade: a new client object at a fresh
  address \<open>p\<close>, with an empty queue of the configured capacity (a size below zero,
  which \<open>ValidateConfig\<close> refuses, counts as zero). The client is then sent to the
  hub for registration.
\<close>

definition newClient :: "int \<Rightarrow> nat \<Rightarrow> string \<Rightarrow> string \<Rightarrow> string \<Rightarrow> SyncMiddleware \<Rightarrow> SyncMiddleware" where
  "newClient now p clientID userID agentID s =
     s\<lparr>sm_heap := (sm_heap s)(p \<mapsto>
          \<lparr>cl_ID = clientID, cl_UserID = userID, cl_AgentID = agentID,
           cl_Send = \<lparr>ch_buf = [], ch_cap = nat (sync_BufferSize (sm_config s)),
                      ch_closed = False\<rparr>,
           cl_LastPing = now, cl_Metadata = Map.empty\<rparr>)\<rparr>"

text \<open>
  One step of the system around the hub: a connection is accepted, the hub takes a
  client from \<open>register\<close> or \<open>unregister\<close> or a message from \<open>broadcast\<close>, a reader
  goroutine handles an inbound message, the writer goroutine of a client takes the
  next message from the client's queue, or the heartbeat ticker fires.
\<close>

datatype hub_op =
    Accept nat string string string
  | Register nat
  | Unregister nat
  | BroadcastNext
  | ClientMessage nat SyncMessage
  | WriterReceive nat
  | HeartbeatTick

definition hubStep :: "int \<Rightarrow> hub_op \<Rightarrow> SyncMiddleware \<Rightarrow> panic + SyncMiddleware" where
  "hubStep now op s =
     (case op of
        Accept p clientID userID agentID \<Rightarrow> Inr (newClient now p clientID userID agentID s)
      | Register p \<Rightarrow> registerClient now p s
      | Unregister p \<Rightarrow> unregisterClient p s
      | BroadcastNext \<Rightarrow>
          (case sm_broadcast s of
             [] \<Rightarrow> Inr s
           | message # rest \<Rightarrow> broadcastMessage message (s\<lparr>sm_broadcast := rest\<rparr>))
      | ClientMessage p message \<Rightarrow> handleClientMessage now p message s
      | WriterReceive p \<Rightarrow>
          (case sm_heap s p of
             None \<Rightarrow> Inl NilClient
           | Some client \<Rightarrow>
               Inr (s\<lparr>sm_heap := (sm_heap s)(p \<mapsto>
                      client\<lparr>cl_Send := (cl_Send client)\<lparr>ch_buf := tl (ch_buf (cl_Send client))\<rparr>\<rparr>)\<rparr>))
      | HeartbeatTick \<Rightarrow> Inr (sendHeartbeat now s))"

fun hubRun :: "int \<Rightarrow> hub_op list \<Rightarrow> SyncMiddleware \<Rightarrow> panic + SyncMiddleware" where
  "hubRun now [] s = Inr s"
| "hubRun now (op # ops) s =
     (case hubStep now op s of Inl e \<Rightarrow> Inl e | Inr s' \<Rightarrow> hubRun now ops s')"

text \<open>
  What a broadcast is expected to do to one client: a client the message is meant
  for gets it appended when its queue has room and is closed otherwise; any other
  client stays as it is. \<open>dropsClient\<close> tells whether the registry entry loses its
  client in the broadcast.
\<close>

definition queueHasRoom :: "Client \<Rightarrow> bool" where
  "queueHasRoom c = (length (ch_buf (cl_Send c)) < ch_cap (cl_Send c))"

definition delivered :: "SyncMessage \<Rightarrow> Client \<Rightarrow> Client" where
  "delivered message c =
     (if shouldReceiveMessage c message then
        (if queueHasRoom c
         then c\<lparr>cl_Send := (cl_Send c)\<lparr>ch_buf := ch_buf (cl_Send c) @ [message]\<rparr>\<rparr>
         else c\<lparr>cl_Send := (cl_Send c)\<lparr>ch_closed := True\<rparr>\<rparr>)
      else c)"

definition dropsClient :: "SyncMessage \<Rightarrow> SyncMiddleware \<Rightarrow> string \<times> nat \<Rightarrow> bool" where
  "dropsClient message s entry =
     (case sm_heap s (snd entry) of
        None \<Rightarrow> False
      | Some c \<Rightarrow> shouldReceiveMessage c message \<and> \<not> queueHasRoom c)"

text \<open>
  The state the hub keeps as long as no channel is closed behind its back: the
  registry has one entry per id and per client, and every registered client exists,
  is registered under its own id and has an open channel.
\<close>

definition hubWellFormed :: "SyncMiddleware \<Rightarrow> bool" where
  "hubWellFormed s =
     (distinct (map fst (sm_clients s)) \<and> distinct (map snd (sm_clients s))
      \<and> list_all (\<lambda>entry. case sm_heap s (snd entry) of
                              None \<Rightarrow> False
                            | Some c \<Rightarrow> cl_ID c = fst entry \<and> \<not> ch_closed (cl_Send c))
           (sm_clients s))"

text \<open>
  What an observer sees of a run: the types of the messages pending for the client
  at an address (\<open>None\<close> after a panic), and whether the run panicked.
\<close>

definition pendingTypes :: "nat \<Rightarrow> panic + SyncMiddleware \<Rightarrow> string list option" where
  "pendingTypes p res =
     (case res of
        Inl e \<Rightarrow> None
      | Inr s \<Rightarrow>
          (case sm_heap s p of
             None \<Rightarrow> Some []
           | Some c \<Rightarrow> Some (map msg_Type (ch_buf (cl_Send c)))))"

text \<open>
  A message as a client sends it: a type and the agent it names.
\<close>

definition clientSays :: "string \<Rightarrow> string \<Rightarrow> SyncMessage" where
  "clientSays type agentID =
     \<lparr>msg_Type = type, msg_Data = JNull, msg_Timestamp = 0, msg_ClientID = [],
      msg_UserID = [], msg_AgentID = agentID\<rparr>"

text \<open>A hub with no connection, whose client queues hold a single message.\<close>

definition smallHub :: SyncMiddleware where
  "smallHub =
     \<lparr>sm_config = \<lparr>sync_Enabled = True, sync_WebSocketEnabled = True, sync_SSEEnabled = True,
                    sync_HeartbeatInterval = 30 * Second, sync_BufferSize = 1\<rparr>,
      sm_enabled = True, sm_clients = [], sm_heap = Map.empty, sm_broadcast = []\<rparr>"

definition roomyHub :: SyncMiddleware where
  "roomyHub = smallHub\<lparr>sm_config := (sm_config smallHub)\<lparr>sync_BufferSize := 8\<rparr>\<rparr>"




section \<open>Middleware manager (package middleware)\<close>

record ValidationMiddleware =
  vm_config :: ValidationConfig
  vm_enabled :: bool

record ResponseMiddleware =
  rm_config :: ResponseConfig
  rm_enabled :: bool

record ErrorMiddleware =
  em_config :: ErrorConfig
  em_enabled :: bool

definition validation_Configure ::
    "ValidationConfig \<Rightarrow> ValidationMiddleware \<Rightarrow> string + ValidationMiddleware" where
  "validation_Configure validationConfig v =
     Inr (v\<lparr>vm_config := validationConfig, vm_enabled := val_Enabled validationConfig\<rparr>)"

definition response_Configure ::
    "ResponseConfig \<Rightarrow> ResponseMiddleware \<Rightarrow> string + ResponseMiddleware" where
  "response_Configure responseConfig r =
     Inr (r\<lparr>rm_config := responseConfig, rm_enabled := resp_Enabled responseConfig\<rparr>)"

definition errors_Configure :: "ErrorConfig \<Rightarrow> ErrorMiddleware \<Rightarrow> string + ErrorMiddleware" where
  "errors_Configure errorConfig e =
     Inr (e\<lparr>em_config := errorConfig, em_enabled := err_Enabled errorConfig\<rparr>)"

text \<open>
  The manager: the configuration, the six components and the chain, which is
  represented by the names of the handlers in it, outermost first.
\<close>

record Manager =
  m_config :: MiddlewareConfig
  m_auth :: AuthMiddleware
  m_validation :: ValidationMiddleware
  m_response :: ResponseMiddleware
  m_sync :: SyncMiddleware
  m_claude :: ClaudeMiddleware
  m_errors :: ErrorMiddleware
  m_chain :: "string list"

definition buildChain :: "Manager \<Rightarrow> Manager" where
  "buildChain m =
     m\<lparr>m_chain :=
         (if em_enabled (m_errors m) then [''errors''] else [])
         @ (if rm_enabled (m_response m) then [''response''] else [])
         @ (if am_enabled (m_auth m) then [''auth''] else [])
         @ (if vm_enabled (m_validation m) then [''validation''] else [])
         @ (if sm_enabled (m_sync m) then [''sync''] else [])
         @ (if cm_enabled (m_claude m) then [''claude''] else [])\<rparr>"

definition NewManager :: "MiddlewareConfig \<Rightarrow> Manager" where
  "NewManager config =
     buildChain
       \<lparr>m_config = config,
        m_auth = \<lparr>am_config = cfg_Auth config, am_enabled = auth_Enabled (cfg_Auth config),
                  am_jwtKey = auth_Secret (cfg_Auth config), am_apiKeys = Map.empty\<rparr>,
        m_validation = \<lparr>vm_config = cfg_Validation config,
                        vm_enabled = val_Enabled (cfg_Validation config)\<rparr>,
        m_response = \<lparr>rm_config = cfg_Response config,
                      rm_enabled = resp_Enabled (cfg_Response config)\<rparr>,
        m_sync = \<lparr>sm_config = cfg_Sync config, sm_enabled = sync_Enabled (cfg_Sync config),
                  sm_clients = [], sm_heap = Map.empty, sm_broadcast = []\<rparr>,
        m_claude = \<lparr>cm_config = cfg_Claude config,
                    cm_enabled = claude_Enabled (cfg_Claude config),
                    cm_clientTimeout = claude_TimeoutSeconds (cfg_Claude config) * Second,
                    cm_sessions = Map.empty\<rparr>,
        m_errors = \<lparr>em_config = cfg_Errors config,
                    em_enabled = err_Enabled (cfg_Errors config)\<rparr>,
        m_chain = []\<rparr>"

definition CreateDefaultConfig :: MiddlewareConfig where
  "CreateDefaultConfig =
     \<lparr>cfg_Auth = \<lparr>auth_Enabled = True, auth_Type = ''bearer'',
                   auth_Secret = ''default-secret-change-me'',
                   auth_Expiration = 24 * 60 * Minute, auth_Issuer = ''agentapi''\<rparr>,
      cfg_Validation = \<lparr>val_Enabled = True, val_StrictMode = False,
                         val_MaxRequestSize = 10 * 1024 * 1024, val_ValidateHeaders = True\<rparr>,
      cfg_Response = \<lparr>resp_Enabled = True, resp_StandardFormat = True,
                       resp_IncludeTimestamp = True, resp_IncludeRequestID = True,
                       resp_CompressionLevel = 6, resp_CacheControl = ''no-cache''\<rparr>,
      cfg_Sync = \<lparr>sync_Enabled = True, sync_WebSocketEnabled = True, sync_SSEEnabled = True,
                   sync_HeartbeatInterval = 30 * Second, sync_BufferSize = 1000\<rparr>,
      cfg_Claude = \<lparr>claude_Enabled = True,
                     claude_APIEndpoint = ''http://localhost:8080/api/claude'',
                     claude_Version = ''1.0'', claude_MaxRetries = 3,
                     claude_TimeoutSeconds = 30, claude_RateLimitRPS = 10,
                     claude_EnableStreaming = True\<rparr>,
      cfg_Errors = \<lparr>err_Enabled = True, err_DetailedErrors = False, err_LogErrors = True,
                     err_IncludeStack = False, err_SanitizeSecrets = True\<rparr>\<rparr>"

text \<open>
  \<open>ValidateConfig\<close>: \<open>None\<close> for a configuration that passes, the error otherwise.
\<close>

definition ValidateConfig :: "MiddlewareConfig \<Rightarrow> string option" where
  "ValidateConfig config =
     (if auth_Enabled (cfg_Auth config) \<and> auth_Secret (cfg_Auth config) = []
        then Some ''auth secret cannot be empty when auth is enabled''
      else if auth_Enabled (cfg_Auth config)
              \<and> auth_Type (cfg_Auth config) \<noteq> ''bearer''
              \<and> auth_Type (cfg_Auth config) \<noteq> ''api_key''
        then Some (''unsupported auth type: '' @ auth_Type (cfg_Auth config))
      else if val_Enabled (cfg_Validation config)
              \<and> sint (val_MaxRequestSize (cfg_Validation config)) \<le> 0
        then Some ''max request size must be positive''
      else if sync_Enabled (cfg_Sync config) \<and> sync_BufferSize (cfg_Sync config) \<le> 0
        then Some ''sync buffer size must be positive''
      else if sync_Enabled (cfg_Sync config) \<and> sync_HeartbeatInterval (cfg_Sync config) \<le> 0
        then Some ''heartbeat interval must be positive''
      else if claude_Enabled (cfg_Claude config) \<and> claude_APIEndpoint (cfg_Claude config) = []
        then Some ''Claude API endpoint cannot be empty when Claude is enabled''
      else if claude_Enabled (cfg_Claude config)
              \<and> claude_TimeoutSeconds (cfg_Claude config) \<le> 0
        then Some ''Claude timeout must be positive''
      else None)"

text \<open>
  \<open>CreateEnhancedServer\<close> builds the manager from a configuration; it is the path on
  which the configuration goes through \<open>ValidateConfig\<close> first.
\<close>

definition CreateEnhancedServer :: "MiddlewareConfig \<Rightarrow> string + Manager" where
  "CreateEnhancedServer middlewareConfig =
     (case ValidateConfig middlewareConfig of
        Some err \<Rightarrow> Inl err
      | None \<Rightarrow> Inr (NewManager middlewareConfig))"

text \<open>
  \<open>UpdateConfig\<close> stores the configuration, reconfigures the components one after the
  other, stopping at the first that fails, and rebuilds the chain. It returns the error,
  if any, and the manager as the call leaves it.
\<close>

definition UpdateConfig :: "MiddlewareConfig \<Rightarrow> Manager \<Rightarrow> string option \<times> Manager" where
  "UpdateConfig config m0 =
     (let m1 = m0\<lparr>m_config := config\<rparr> in
      case auth_Configure (cfg_Auth config) (m_auth m1) of
        Inl err \<Rightarrow> (Some (''failed to configure auth middleware: '' @ err), m1)
      | Inr a \<Rightarrow>
      (let m2 = m1\<lparr>m_auth := a\<rparr> in
      case validation_Configure (cfg_Validation config) (m_validation m2) of
        Inl err \<Rightarrow> (Some (''failed to configure validation middleware: '' @ err), m2)
      | Inr v \<Rightarrow>
      (let m3 = m2\<lparr>m_validation := v\<rparr> in
      case response_Configure (cfg_Response config) (m_response m3) of
        Inl err \<Rightarrow> (Some (''failed to configure response middleware: '' @ err), m3)
      | Inr r \<Rightarrow>
      (let m4 = m3\<lparr>m_response := r\<rparr> in
      case sync_Configure (cfg_Sync config) (m_sync m4) of
        Inl err \<Rightarrow> (Some (''failed to configure sync middleware: '' @ err), m4)
      | Inr sy \<Rightarrow>
      (let m5 = m4\<lparr>m_sync := sy\<rparr> in
      case claude_Configure (cfg_Claude config) (m_claude m5) of
        Inl err \<Rightarrow> (Some (''failed to configure claude middleware: '' @ err), m5)
      | Inr c \<Rightarrow>
      (let m6 = m5\<lparr>m_claude := c\<rparr> in
      case errors_Configure (cfg_Errors config) (m_errors m6) of
        Inl err \<Rightarrow> (Some (''failed to configure errors middleware: '' @ err), m6)
      | Inr e \<Rightarrow> (None, buildChain (m6\<lparr>m_errors := e\<rparr>))))))))"

text \<open>
  The handler of \<open>PUT /middleware/config\<close>. \<open>decoded\<close> is what the JSON decoder makes
  of the request body: an error or a configuration. The result is the HTTP status
  with the error code of the envelope (empty on success) and the manager afterwards.
\<close>

definition handleUpdateMiddlewareConfig ::
    "string + MiddlewareConfig \<Rightarrow> Manager \<Rightarrow> (int \<times> string) \<times> Manager" where
  "handleUpdateMiddlewareConfig decoded m =
     (case decoded of
        Inl err \<Rightarrow>
          (case HandleError (em_config (m_errors m)) [] (Some err) 400 of
             Some (l, resp) \<Rightarrow> ((er_Status resp, ei_Code (er_Error resp)), m)
           | None \<Rightarrow> ((0, []), m))
      | Inr config \<Rightarrow>
          (case UpdateConfig config m of
             (Some err, m') \<Rightarrow>
               (case HandleError (em_config (m_errors m')) [] (Some err) 400 of
                  Some (l, resp) \<Rightarrow> ((er_Status resp, ei_Code (er_Error resp)), m')
                | None \<Rightarrow> ((0, []), m'))
           | (None, m') \<Rightarrow> ((200, []), m')))"

text \<open>
  \<open>performCleanup\<close> at time \<open>now\<close>, and \<open>runCleanup\<close> over the instants at which the
  ticker fires until the context is cancelled. The ticker's period is
  \<open>cleanupPeriod\<close>.
\<close>

definition cleanupPeriod :: int where
  "cleanupPeriod = 5 * Minute"

definition performCleanup :: "int \<Rightarrow> Manager \<Rightarrow> Manager" where
  "performCleanup now m =
     (if cm_enabled (m_claude m)
      then m\<lparr>m_claude := CleanupSessions now (30 * Minute) (m_claude m)\<rparr>
      else m)"

fun runCleanup :: "int list \<Rightarrow> Manager \<Rightarrow> Manager" where
  "runCleanup [] m = m"
| "runCleanup (tick # ticks) m = runCleanup ticks (performCleanup tick m)"



section \<open>Properties\<close>

subsection \<open>Request size limit\<close>

lemma fmt_d_sizes: "fmt_d 2000 = ''2000''" "fmt_d 1024 = ''1024''"
  by code_simp+

text \<open>
  C10. The size check looks at the declared \<open>Content-Length\<close> only: it fails if and
  only if \<open>MaxRequestSize\<close> is positive and the declared length exceeds it, and then
  the enabled validator answers 400 \<open>VALIDATION_ERROR\<close>. A request whose declared
  length is unknown (\<open>-1\<close>) or not positive passes the check whatever bytes its body
  holds; the body never enters the check.
\<close>

theorem validateRequestSize_declared_only:
  "(validateRequestSize cfg r \<noteq> None) =
     (0 < sint (val_MaxRequestSize cfg) \<and> sint (val_MaxRequestSize cfg) < sint (ContentLength r))
   \<and> (sint (ContentLength r) \<le> 0 \<longrightarrow> validateRequestSize cfg (r\<lparr>Body := b\<rparr>) = None)
   \<and> validateRequestSize cfg (r\<lparr>Body := b\<rparr>) = validateRequestSize cfg r
   \<and> (val_Enabled cfg \<and> validateRequestSize cfg r = Some e
        \<longrightarrow> validation_Handler unmarshal cfg r = Rejected 400 ''VALIDATION_ERROR'' e)"
  by (simp add: validateRequestSize_def validation_Handler_def writeBadRequest_def)

theorem validateRequestSize_declared_only_witness:
  "sint (ContentLength (emptyKeyRequest (- 1))) \<le> 0
   \<and> validateRequestSize strictValidation
        ((emptyKeyRequest (- 1))\<lparr>Body := Inr (replicate 5000 (CHR ''x''))\<rparr>) = None
   \<and> val_Enabled strictValidation
   \<and> validateRequestSize strictValidation (emptyKeyRequest 2000)
       = Some ''request size 2000 exceeds maximum allowed size 1024''
   \<and> validation_Handler unmarshalEmptyKey strictValidation (emptyKeyRequest 2000)
       = Rejected 400 ''VALIDATION_ERROR'' ''request size 2000 exceeds maximum allowed size 1024''"
  using validateRequestSize_declared_only
    [where cfg = strictValidation and r = "emptyKeyRequest (- 1)"
       and b = "Inr (replicate 5000 (CHR ''x''))"]
    validateRequestSize_declared_only
    [where cfg = strictValidation and r = "emptyKeyRequest 2000"
       and e = "''request size 2000 exceeds maximum allowed size 1024''"
       and unmarshal = unmarshalEmptyKey]
  by (simp add: strictValidation_def emptyKeyRequest_def validateRequestSize_def fmt_d_sizes)

subsection \<open>Status codes of reported errors\<close>

text \<open>
  C3, as the specification states it, fails at status 408: the table of the
  specification gives \<open>REQUEST_TIMEOUT\<close>, \<open>HandleError\<close> writes \<open>UNKNOWN_ERROR\<close>.
\<close>

theorem HandleError_408_counterexample:
  "map_of spec_status_code 408 = Some ''REQUEST_TIMEOUT''
   \<and> HandleError (cfg_Errors CreateDefaultConfig) [] (Some ''deadline exceeded'') 408
      = Some (Some ''deadline exceeded'',
              \<lparr>er_Status = 408,
               er_Error = \<lparr>ei_Code = ''UNKNOWN_ERROR'', ei_Message = ''deadline exceeded'',
                           ei_Stack = []\<rparr>\<rparr>)"
  by code_simp

text \<open>
  C3, amended. For every reported error the response carries the given status, and its
  code is the one the specification's table gives for that status, except that the
  statuses 408 and 422, like every status outside the table, get \<open>UNKNOWN_ERROR\<close>.
\<close>

theorem HandleError_code_mapping:
  "HandleError cfg stack (Some msg) statusCode
   = Some (logError cfg msg,
           writeErrorResponse cfg stack statusCode
             (if statusCode = 408 \<or> statusCode = 422 then ''UNKNOWN_ERROR''
              else case map_of spec_status_code statusCode of
                     Some code \<Rightarrow> code
                   | None \<Rightarrow> ''UNKNOWN_ERROR'')
             msg)
   \<and> er_Status (writeErrorResponse cfg stack statusCode code msg) = statusCode
   \<and> ei_Code (er_Error (writeErrorResponse cfg stack statusCode code msg)) = code"
  by (simp add: spec_status_code_def HandleError_def writeErrorResponse_def)

theorem HandleError_code_mapping_witness:
  "HandleError (cfg_Errors CreateDefaultConfig) [] (Some ''no such session'') 404
   = Some (logError (cfg_Errors CreateDefaultConfig) ''no such session'',
           writeErrorResponse (cfg_Errors CreateDefaultConfig) [] 404 ''NOT_FOUND''
             ''no such session'')"
  using HandleError_code_mapping
    [of "cfg_Errors CreateDefaultConfig" "[]" "''no such session''" 404]
  by (simp add: spec_status_code_def)

subsection \<open>Sanitizing error messages\<close>

text \<open>
  C2. With \<open>SanitizeSecrets\<close> on, the message \<open>bad PASSWORD\<close> is written to the
  response unchanged, although its lower-cased form contains \<open>password\<close>: the test
  for a pattern is made on the lower-cased message, the replacement on the message
  itself with the lower-case pattern.
\<close>

theorem sanitizeMessage_upper_case_kept:
  "err_SanitizeSecrets (cfg_Errors CreateDefaultConfig)
   \<and> ei_Message (er_Error (writeErrorResponse (cfg_Errors CreateDefaultConfig) [] 500
        ''INTERNAL_SERVER_ERROR'' ''bad PASSWORD'')) = ''bad PASSWORD''
   \<and> strings_Contains (strings_ToLower ''bad PASSWORD'') ''password''"
  by code_simp

subsection \<open>Updating the configuration\<close>

text \<open>
  \<open>UpdateConfig\<close> never reports an error and always stores the configuration it is
  given: no step of it looks at the values.
\<close>

lemma UpdateConfig_accepts_every_configuration:
  "fst (UpdateConfig config m) = None \<and> m_config (snd (UpdateConfig config m)) = config"
  by (simp add: UpdateConfig_def Let_def auth_Configure_def validation_Configure_def
      response_Configure_def sync_Configure_def claude_Configure_def errors_Configure_def
      buildChain_def)

text \<open>
  C7. The default configuration with the authentication secret emptied does not pass
  \<open>ValidateConfig\<close>, which the construction of the server runs first. Submitted to
  the handler of \<open>PUT /middleware/config\<close> it is answered with success, it becomes the
  manager's configuration, and the authenticator's key becomes the empty string.
\<close>

theorem handleUpdateMiddlewareConfig_applies_invalid:
  "ValidateConfig CreateDefaultConfig = None
   \<and> ValidateConfig
        (CreateDefaultConfig\<lparr>cfg_Auth := (cfg_Auth CreateDefaultConfig)\<lparr>auth_Secret := []\<rparr>\<rparr>)
      = Some ''auth secret cannot be empty when auth is enabled''
   \<and> fst (handleUpdateMiddlewareConfig
        (Inr (CreateDefaultConfig\<lparr>cfg_Auth := (cfg_Auth CreateDefaultConfig)\<lparr>auth_Secret := []\<rparr>\<rparr>))
        (NewManager CreateDefaultConfig)) = (200, [])
   \<and> m_config (snd (handleUpdateMiddlewareConfig
        (Inr (CreateDefaultConfig\<lparr>cfg_Auth := (cfg_Auth CreateDefaultConfig)\<lparr>auth_Secret := []\<rparr>\<rparr>))
        (NewManager CreateDefaultConfig)))
      = CreateDefaultConfig\<lparr>cfg_Auth := (cfg_Auth CreateDefaultConfig)\<lparr>auth_Secret := []\<rparr>\<rparr>
   \<and> am_jwtKey (m_auth (snd (handleUpdateMiddlewareConfig
        (Inr (CreateDefaultConfig\<lparr>cfg_Auth := (cfg_Auth CreateDefaultConfig)\<lparr>auth_Secret := []\<rparr>\<rparr>))
        (NewManager CreateDefaultConfig)))) = []"
  by (simp add: ValidateConfig_def CreateDefaultConfig_def handleUpdateMiddlewareConfig_def
      UpdateConfig_def Let_def auth_Configure_def validation_Configure_def
      response_Configure_def sync_Configure_def claude_Configure_def errors_Configure_def
      buildChain_def NewManager_def Second_def Minute_def)

subsection \<open>Session garbage collection\<close>

text \<open>
  C8. A run of \<open>CleanupSessions\<close> at time \<open>now\<close> removes exactly the sessions whose
  last activity lies more than the maximal age before \<open>now\<close>, keeps every other
  session as it is and adds none. The periodic cleanup, when the session layer is
  enabled, runs it with a maximal age of 30 minutes; its ticker has a period of
  5 minutes.
\<close>

theorem session_gc_evicts_exactly_idle:
  "cm_sessions (CleanupSessions now maxAge c) sid
     = (case cm_sessions c sid of
          None \<Rightarrow> None
        | Some session \<Rightarrow>
            if maxAge < now - cs_LastActivity session then None else Some session)
   \<and> (cm_enabled (m_claude m) \<longrightarrow>
        cm_sessions (m_claude (performCleanup now m)) sid
          = (case cm_sessions (m_claude m) sid of
               None \<Rightarrow> None
             | Some session \<Rightarrow>
                 if 30 * Minute < now - cs_LastActivity session then None else Some session))
   \<and> cleanupPeriod = 5 * Minute \<and> Minute = 60 * 1000000000"
  by (auto simp: CleanupSessions_def performCleanup_def cleanupPeriod_def Minute_def Second_def
      split: option.splits)

theorem session_gc_evicts_exactly_idle_witness:
  "cm_enabled (m_claude ((NewManager CreateDefaultConfig)
       \<lparr>m_claude := snd (getOrCreateSession 0 ''s1'' [] []
                           (m_claude (NewManager CreateDefaultConfig)))\<rparr>))
   \<and> cm_sessions (m_claude (performCleanup (30 * Minute + 1)
        ((NewManager CreateDefaultConfig)
           \<lparr>m_claude := snd (getOrCreateSession 0 ''s1'' [] []
                               (m_claude (NewManager CreateDefaultConfig)))\<rparr>))) ''s1'' = None"
  using session_gc_evicts_exactly_idle
    [of "30 * Minute + 1" 0 "m_claude (NewManager CreateDefaultConfig)" "''s1''"
        "(NewManager CreateDefaultConfig)
           \<lparr>m_claude := snd (getOrCreateSession 0 ''s1'' [] []
                               (m_claude (NewManager CreateDefaultConfig)))\<rparr>"]
  by (simp add: NewManager_def CreateDefaultConfig_def buildChain_def getOrCreateSession_def
      Let_def Minute_def Second_def)

subsection \<open>Forwarding with retries\<close>










subsection \<open>Validation of JSON bodies\<close>











subsection \<open>Authentication\<close>











subsection \<open>The synchronization hub\<close>

lemmas hub_defs = hubStep_def newClient_def registerClient_def unregisterClient_def
  handleClientMessage_def sendOrDrop_def trySend_def chan_close_def broadcastMessage_def
  sendHeartbeat_def shouldReceiveMessage_def clientSays_def smallHub_def roomyHub_def
  pendingTypes_def



lemma sendOrDrop_open:
  assumes "\<not> ch_closed (cl_Send c)" and "shouldReceiveMessage c m"
  shows "sendOrDrop p c m s
   = Inr (s\<lparr>sm_heap := (sm_heap s)(p \<mapsto> delivered m c),
            sm_clients := (if queueHasRoom c then sm_clients s
                           else AList.delete (cl_ID c) (sm_clients s))\<rparr>)"
  using assms
  by (simp add: sendOrDrop_def trySend_def chan_close_def queueHasRoom_def delivered_def)

lemma broadcastLoop_step:
  assumes "sm_heap s (snd e) = Some c" and "\<not> ch_closed (cl_Send c)"
  shows "broadcastLoop m (e # es) s
   = broadcastLoop m es
       (s\<lparr>sm_heap := (sm_heap s)(snd e \<mapsto> delivered m c),
          sm_clients := (if shouldReceiveMessage c m \<and> \<not> queueHasRoom c
                         then AList.delete (cl_ID c) (sm_clients s)
                         else sm_clients s)\<rparr>)"
proof (cases "shouldReceiveMessage c m")
  case True
  with assms show ?thesis by (simp add: sendOrDrop_open)
next
  case False
  then have "delivered m c = c" by (simp add: delivered_def)
  moreover have "(sm_heap s)(snd e \<mapsto> c) = sm_heap s"
    using assms(1) by (simp add: map_upd_triv)
  ultimately show ?thesis using assms False by simp
qed


lemma broadcastLoop_effect:
  assumes "distinct (map snd es)"
    and "\<forall>e\<in>set es. \<exists>c. sm_heap s (snd e) = Some c \<and> cl_ID c = fst e \<and> \<not> ch_closed (cl_Send c)"
  shows "\<exists>s'. broadcastLoop m es s = Inr s'
          \<and> sm_heap s' = (\<lambda>p. if p \<in> snd ` set es then map_option (delivered m) (sm_heap s p)
                                else sm_heap s p)
          \<and> sm_clients s'
              = filter (\<lambda>x. fst x \<notin> fst ` {d \<in> set es. dropsClient m s d}) (sm_clients s)
          \<and> sm_broadcast s' = sm_broadcast s"
  using assms
proof (induction es arbitrary: s)
  case Nil
  then show ?case by simp
next
  case (Cons e es)
  from Cons.prems(2) obtain c where c: "sm_heap s (snd e) = Some c" "cl_ID c = fst e"
    "\<not> ch_closed (cl_Send c)" by auto
  define s1 where "s1 = s\<lparr>sm_heap := (sm_heap s)(snd e \<mapsto> delivered m c),
          sm_clients := (if shouldReceiveMessage c m \<and> \<not> queueHasRoom c
                         then AList.delete (cl_ID c) (sm_clients s)
                         else sm_clients s)\<rparr>"
  have step: "broadcastLoop m (e # es) s = broadcastLoop m es s1"
    unfolding s1_def using c(1,3) by (rule broadcastLoop_step)
  have notin: "snd e \<notin> snd ` set es" using Cons.prems(1) by auto
  have same: "sm_heap s1 (snd d) = sm_heap s (snd d)" if "d \<in> set es" for d
  proof -
    from that notin have "snd d \<noteq> snd e" by (metis imageI)
    then show ?thesis by (simp add: s1_def)
  qed
  have d1: "distinct (map snd es)" using Cons.prems(1) by simp
  have pre: "\<forall>d\<in>set es. \<exists>c. sm_heap s1 (snd d) = Some c \<and> cl_ID c = fst d \<and> \<not> ch_closed (cl_Send c)"
    using Cons.prems(2) same by auto
  from Cons.IH [OF d1 pre] obtain s' where s': "broadcastLoop m es s1 = Inr s'"
    and h: "sm_heap s' = (\<lambda>p. if p \<in> snd ` set es then map_option (delivered m) (sm_heap s1 p)
                                else sm_heap s1 p)"
    and cl: "sm_clients s'
              = filter (\<lambda>x. fst x \<notin> fst ` {d \<in> set es. dropsClient m s1 d}) (sm_clients s1)"
    and b: "sm_broadcast s' = sm_broadcast s1"
    by blast
  have drops_same: "{d \<in> set es. dropsClient m s1 d} = {d \<in> set es. dropsClient m s d}"
    using same by (auto simp: dropsClient_def)
  have de: "dropsClient m s e = (shouldReceiveMessage c m \<and> \<not> queueHasRoom c)"
    using c(1) by (simp add: dropsClient_def)
  have heap_eq: "sm_heap s' = (\<lambda>p. if p \<in> snd ` set (e # es)
                                then map_option (delivered m) (sm_heap s p) else sm_heap s p)"
  proof (rule ext)
    fix p
    show "sm_heap s' p = (if p \<in> snd ` set (e # es)
                                then map_option (delivered m) (sm_heap s p) else sm_heap s p)"
    proof (cases "p = snd e")
      case True
      then show ?thesis using notin c(1) by (simp add: h s1_def)
    next
      case False
      then show ?thesis by (simp add: h s1_def)
    qed
  qed
  have clients_eq: "sm_clients s'
      = filter (\<lambda>x. fst x \<notin> fst ` {d \<in> set (e # es). dropsClient m s d}) (sm_clients s)"
  proof (cases "dropsClient m s e")
    case True
    then have A: "sm_clients s1 = filter (\<lambda>x. fst x \<noteq> fst e) (sm_clients s)"
      using de c(2) by (auto simp: s1_def AList.delete_eq case_prod_unfold intro: filter_cong)
    have B: "(\<lambda>x. fst x \<noteq> fst e \<and> fst x \<notin> fst ` {d \<in> set es. dropsClient m s d})
        = (\<lambda>x. fst x \<notin> fst ` {d \<in> set (e # es). dropsClient m s d})"
      using True by auto
    show ?thesis by (simp only: cl drops_same A filter_filter B)
  next
    case False
    then have "sm_clients s1 = sm_clients s" using de by (auto simp: s1_def)
    moreover have "{d \<in> set (e # es). dropsClient m s d} = {d \<in> set es. dropsClient m s d}"
      using False by auto
    ultimately show ?thesis by (simp add: cl drops_same)
  qed
  have "sm_broadcast s' = sm_broadcast s" using b by (simp add: s1_def)
  with step s' heap_eq clients_eq show ?case by simp
qed


lemma broadcastMessage_effect:
  assumes "hubWellFormed s"
  shows "\<exists>s'. broadcastMessage m s = Inr s'
          \<and> sm_clients s' = filter (\<lambda>e. \<not> dropsClient m s e) (sm_clients s)
          \<and> (\<forall>e\<in>set (sm_clients s).
                sm_heap s' (snd e) = map_option (delivered m) (sm_heap s (snd e)))"
proof -
  from assms have dk: "distinct (map fst (sm_clients s))"
    and dp: "distinct (map snd (sm_clients s))"
    and ok: "\<forall>e\<in>set (sm_clients s). \<exists>c. sm_heap s (snd e) = Some c \<and> cl_ID c = fst e
                \<and> \<not> ch_closed (cl_Send c)"
    by (auto simp: hubWellFormed_def list_all_iff split: option.splits)
  from broadcastLoop_effect [OF dp ok, of m] obtain s' where
    run: "broadcastLoop m (sm_clients s) s = Inr s'"
    and h: "sm_heap s' = (\<lambda>p. if p \<in> snd ` set (sm_clients s)
                                then map_option (delivered m) (sm_heap s p) else sm_heap s p)"
    and cl: "sm_clients s' = filter (\<lambda>x. fst x \<notin> fst ` {d \<in> set (sm_clients s). dropsClient m s d})
                               (sm_clients s)"
    by blast
  have key: "d = x" if "d \<in> set (sm_clients s)" and "x \<in> set (sm_clients s)"
    and "fst d = fst x" for d x
    using that dk by (metis eq_key_imp_eq_value prod.collapse)
  have "(fst x \<notin> fst ` {d \<in> set (sm_clients s). dropsClient m s d}) = (\<not> dropsClient m s x)"
    if x: "x \<in> set (sm_clients s)" for x
  proof
    assume "fst x \<notin> fst ` {d \<in> set (sm_clients s). dropsClient m s d}"
    then show "\<not> dropsClient m s x" using x by force
  next
    assume n: "\<not> dropsClient m s x"
    show "fst x \<notin> fst ` {d \<in> set (sm_clients s). dropsClient m s d}"
    proof
      assume "fst x \<in> fst ` {d \<in> set (sm_clients s). dropsClient m s d}"
      then obtain d where d: "d \<in> set (sm_clients s)" "dropsClient m s d" "fst d = fst x"
        by force
      with key x have "d = x" by blast
      with d n show False by simp
    qed
  qed
  then have "filter (\<lambda>x. fst x \<notin> fst ` {d \<in> set (sm_clients s). dropsClient m s d}) (sm_clients s)
             = filter (\<lambda>e. \<not> dropsClient m s e) (sm_clients s)"
    by (intro filter_cong) auto
  with run h cl show ?thesis
    by (auto simp: broadcastMessage_def)
qed



text \<open>
  The operations the hub itself performs keep it well-formed and do not panic: a
  broadcast, and the removal of a client registered under its id.
\<close>

lemma delivered_ID: "cl_ID (delivered m c) = cl_ID c"
  by (simp add: delivered_def)

lemma delivered_open:
  "\<not> ch_closed (cl_Send c) \<Longrightarrow> \<not> (shouldReceiveMessage c m \<and> \<not> queueHasRoom c)
   \<Longrightarrow> \<not> ch_closed (cl_Send (delivered m c))"
  by (auto simp: delivered_def)

lemma broadcastMessage_keeps_wellformed:
  assumes "hubWellFormed s"
  shows "\<exists>s'. broadcastMessage m s = Inr s' \<and> hubWellFormed s'"
proof -
  from broadcastMessage_effect [OF assms, of m] obtain s' where
    run: "broadcastMessage m s = Inr s'"
    and cl: "sm_clients s' = filter (\<lambda>e. \<not> dropsClient m s e) (sm_clients s)"
    and h: "\<forall>e\<in>set (sm_clients s).
              sm_heap s' (snd e) = map_option (delivered m) (sm_heap s (snd e))"
    by blast
  from assms have dk: "distinct (map fst (sm_clients s))"
    and dp: "distinct (map snd (sm_clients s))"
    and ok: "\<forall>e\<in>set (sm_clients s). \<exists>c. sm_heap s (snd e) = Some c \<and> cl_ID c = fst e
                \<and> \<not> ch_closed (cl_Send c)"
    by (auto simp: hubWellFormed_def list_all_iff split: option.splits)
  have "\<exists>c. sm_heap s' (snd e) = Some c \<and> cl_ID c = fst e \<and> \<not> ch_closed (cl_Send c)"
    if e: "e \<in> set (sm_clients s')" for e
  proof -
    from e cl have in_s: "e \<in> set (sm_clients s)" and keep: "\<not> dropsClient m s e" by auto
    from ok in_s obtain c where c: "sm_heap s (snd e) = Some c" "cl_ID c = fst e"
      "\<not> ch_closed (cl_Send c)" by blast
    from keep c(1) have "\<not> (shouldReceiveMessage c m \<and> \<not> queueHasRoom c)"
      by (simp add: dropsClient_def)
    with c(3) have "\<not> ch_closed (cl_Send (delivered m c))" by (rule delivered_open)
    moreover from h in_s c(1) have "sm_heap s' (snd e) = Some (delivered m c)" by simp
    ultimately show ?thesis using c(2) by (simp add: delivered_ID)
  qed
  then have "list_all (\<lambda>entry. case sm_heap s' (snd entry) of
                              None \<Rightarrow> False
                            | Some c \<Rightarrow> cl_ID c = fst entry \<and> \<not> ch_closed (cl_Send c))
           (sm_clients s')"
    by (fastforce simp: list_all_iff)
  moreover have "distinct (map fst (sm_clients s'))" "distinct (map snd (sm_clients s'))"
    using dk dp by (simp_all add: cl distinct_map_filter)
  ultimately have "hubWellFormed s'" by (simp add: hubWellFormed_def)
  with run show ?thesis by blast
qed

lemma unregisterClient_keeps_wellformed:
  assumes "hubWellFormed s" and "sm_heap s p = Some c"
    and "map_of (sm_clients s) (cl_ID c) = Some p"
  shows "\<exists>s'. unregisterClient p s = Inr s' \<and> hubWellFormed s'
           \<and> map_of (sm_clients s') (cl_ID c) = None"
proof -
  from assms(1) have dk: "distinct (map fst (sm_clients s))"
    and dp: "distinct (map snd (sm_clients s))"
    and ok: "\<forall>e\<in>set (sm_clients s). \<exists>c. sm_heap s (snd e) = Some c \<and> cl_ID c = fst e
                \<and> \<not> ch_closed (cl_Send c)"
    by (auto simp: hubWellFormed_def list_all_iff split: option.splits)
  from assms(3) have mem: "(cl_ID c, p) \<in> set (sm_clients s)" by (rule map_of_SomeD)
  with ok assms(2) have op: "\<not> ch_closed (cl_Send c)" by fastforce
  define s' where "s' = s\<lparr>sm_clients := AList.delete (cl_ID c) (sm_clients s),
      sm_heap := (sm_heap s)(p \<mapsto> c\<lparr>cl_Send := (cl_Send c)\<lparr>ch_closed := True\<rparr>\<rparr>)\<rparr>"
  have run: "unregisterClient p s = Inr s'"
    using assms(2,3) op by (simp add: unregisterClient_def chan_close_def s'_def)
  have other: "snd e \<noteq> p" if "e \<in> set (sm_clients s')" for e
  proof
    assume "snd e = p"
    from that have in_s: "e \<in> set (sm_clients s)" and ne: "fst e \<noteq> cl_ID c"
      by (auto simp: s'_def AList.delete_eq)
    from in_s \<open>snd e = p\<close> mem dp have "e = (cl_ID c, p)"
      by (metis distinct_map inj_onD prod.collapse snd_conv)
    with ne show False by simp
  qed
  have "list_all (\<lambda>entry. case sm_heap s' (snd entry) of
                              None \<Rightarrow> False
                            | Some c \<Rightarrow> cl_ID c = fst entry \<and> \<not> ch_closed (cl_Send c))
           (sm_clients s')"
    unfolding list_all_iff
  proof
    fix e assume e: "e \<in> set (sm_clients s')"
    then have "e \<in> set (sm_clients s)" by (auto simp: s'_def AList.delete_eq)
    with ok obtain c' where "sm_heap s (snd e) = Some c'" "cl_ID c' = fst e"
      "\<not> ch_closed (cl_Send c')" by blast
    moreover from other e have "sm_heap s' (snd e) = sm_heap s (snd e)" by (simp add: s'_def)
    ultimately show "case sm_heap s' (snd e) of None \<Rightarrow> False
        | Some c \<Rightarrow> cl_ID c = fst e \<and> \<not> ch_closed (cl_Send c)" by simp
  qed
  moreover have "distinct (map fst (sm_clients s'))" "distinct (map snd (sm_clients s'))"
    using dk dp by (simp_all add: s'_def AList.delete_eq distinct_map_filter)
  moreover have "map_of (sm_clients s') (cl_ID c) = None"
    by (simp add: s'_def AList.delete_conv')
  ultimately show ?thesis using run by (simp add: hubWellFormed_def)
qed

text \<open>
  C4. A client whose queue of capacity one holds the welcome message sends a ping:
  the pong does not fit, \<open>handleClientMessage\<close> closes the channel and leaves the
  client registered. When the reader then unregisters the client, the channel is
  closed a second time, which panics; a heartbeat broadcast in its place sends on the
  closed channel, which panics as well.
\<close>

theorem ping_on_full_queue_closes_twice:
  "hubRun 0 [Accept 1 ''c1'' ''u1'' [], Register 1,
             ClientMessage 1 (clientSays ''ping'' []), Unregister 1] smallHub
     = Inl CloseOfClosedChannel
   \<and> hubRun 0 [Accept 1 ''c1'' ''u1'' [], Register 1,
               ClientMessage 1 (clientSays ''ping'' []), HeartbeatTick, BroadcastNext] smallHub
     = Inl SendOnClosedChannel"
  by (simp add: hub_defs)

end
